theory Spec2Isabelle
  imports Main "HOL-Library.Word"
begin

section \<open>The JSON-RPC codec of quarkchain/cluster/jsonrpc.py\<close>

text \<open>
  The module decodes the loosely typed values of a JSON-RPC request into quantities,
  byte buffers and domain objects, and encodes results back. A Python \<open>str\<close> is
  modelled as a \<open>string\<close> (one \<open>char\<close> per code point, code points below 256), a
  Python \<open>bytes\<close> as a list of 8-bit words, a Python \<open>int\<close> as an \<open>int\<close>, and every
  exception as a value of the type \<open>error\<close>: a function that can raise returns
  \<open>error + 'a\<close>, with \<open>Inl\<close> for the exception.
\<close>

subsection \<open>Values and exceptions\<close>

type_synonym byte = "8 word"

text \<open>
  What the JSON parser hands to a handler: \<open>None\<close>, a bool, an int, a float (kept as
  mantissa and binary exponent; no decoder looks inside one), a str, a list or a dict.
  A dict is an association list with one entry per key, read with \<open>map_of\<close>.
\<close>

datatype json =
    JNull
  | JBool bool
  | JInt int
  | JFloat int int
  | JStr string
  | JList "json list"
  | JObj "(string \<times> json) list"

text \<open>
  The exceptions that the module and the library calls it makes can raise.
  \<open>InvalidParams\<close> carries its message; when it wraps another exception
  (\<open>raise InvalidParams(e)\<close>) it carries that exception's text.
\<close>

datatype error =
    InvalidParams string
  | AssertionError
  | AttributeError
  | ValueError
  | TypeError
  | SerializationError
  | InvalidTransaction
  | SubmissionFailure string

fun is_InvalidParams :: "error \<Rightarrow> bool" where
  "is_InvalidParams (InvalidParams m) = True"
| "is_InvalidParams e = False"

definition bind :: "error + 'a \<Rightarrow> ('a \<Rightarrow> error + 'b) \<Rightarrow> error + 'b" where
  "bind m f = (case m of Inl e \<Rightarrow> Inl e | Inr x \<Rightarrow> f x)"

subsection \<open>Python and library primitives\<close>

text \<open>\<open>str.startswith\<close>.\<close>

definition startswith :: "string \<Rightarrow> string \<Rightarrow> bool" where
  "startswith s p = (take (length p) s = p)"

text \<open>\<open>str.lstrip(chars)\<close> for a one-character set, and \<open>str.rjust(width, fill)\<close>,
  which returns the string unchanged when it is already \<open>width\<close> long or longer.\<close>

definition lstrip :: "string \<Rightarrow> char \<Rightarrow> string" where
  "lstrip s c = dropWhile (\<lambda>d. d = c) s"

definition rjust :: "string \<Rightarrow> int \<Rightarrow> char \<Rightarrow> string" where
  "rjust s width fill = replicate (nat (width - int (length s))) fill @ s"

text \<open>CPython's \<open>Py_ISSPACE\<close>: space, tab, newline, vertical tab, form feed, carriage
  return.\<close>

definition Py_ISSPACE :: "char \<Rightarrow> bool" where
  "Py_ISSPACE c = (let n = (of_char c :: nat) in n = 32 \<or> (9 \<le> n \<and> n \<le> 13))"

text \<open>
  The whitespace of \<open>int(s, base)\<close>: on an ASCII str it is \<open>Py_ISSPACE\<close>; on a str with
  a character beyond ASCII, \<open>int\<close> first turns every Unicode space from code point 127
  up into a blank, which among the code points below 256 are U+0085 and U+00A0.
\<close>

definition int_whitespace :: "char \<Rightarrow> bool" where
  "int_whitespace c = (Py_ISSPACE c \<or> (of_char c :: nat) = 133 \<or> (of_char c :: nat) = 160)"

text \<open>CPython's digit table \<open>_PyLong_DigitValue\<close>: the value of a digit or letter, and
  37 for every other character.\<close>

definition PyLong_DigitValue :: "char \<Rightarrow> nat" where
  "PyLong_DigitValue c =
     (let n = (of_char c :: nat)
      in if 48 \<le> n \<and> n \<le> 57 then n - 48
         else if 97 \<le> n \<and> n \<le> 122 then n - 87
         else if 65 \<le> n \<and> n \<le> 90 then n - 55
         else 37)"

definition is_hex_digit :: "char \<Rightarrow> bool" where
  "is_hex_digit c = (PyLong_DigitValue c < 16)"

text \<open>The lower-case hex digit of a nibble, as \<open>binascii.hexlify\<close> writes it.\<close>

definition hex_char :: "nat \<Rightarrow> char" where
  "hex_char n = (if n < 10 then char_of (48 + n) else char_of (87 + n))"

text \<open>\<open>ethereum.utils.encode_hex\<close> on bytes: two lower-case hex digits per byte.\<close>

definition encode_hex :: "byte list \<Rightarrow> string" where
  "encode_hex bs = concat (map (\<lambda>b. [hex_char (unat b div 16), hex_char (unat b mod 16)]) bs)"

text \<open>
  \<open>ethereum.utils.decode_hex\<close> on a str is \<open>bytes.fromhex\<close>: it skips ASCII whitespace
  before a byte, reads two hex digits of either case per byte, and raises
  \<open>ValueError\<close> at any other character or at a digit left without its pair.
\<close>

fun decode_hex :: "string \<Rightarrow> error + byte list" where
  "decode_hex [] = Inr []"
| "decode_hex [c] = (if Py_ISSPACE c then Inr [] else Inl ValueError)"
| "decode_hex (c # d # cs) =
     (if Py_ISSPACE c then decode_hex (d # cs)
      else if is_hex_digit c \<and> is_hex_digit d
        then (case decode_hex cs of
                Inl e \<Rightarrow> Inl e
              | Inr bs \<Rightarrow> Inr (of_nat (16 * PyLong_DigitValue c + PyLong_DigitValue d) # bs))
      else Inl ValueError)"

text \<open>
  \<open>ethereum.utils.int_to_big_endian\<close>: the shortest big-endian byte string of a
  non-negative integer, empty for 0; a negative integer is refused.
\<close>

fun nat_to_big_endian :: "nat \<Rightarrow> byte list" where
  "nat_to_big_endian n = (if n = 0 then [] else nat_to_big_endian (n div 256) @ [of_nat (n mod 256)])"

declare nat_to_big_endian.simps [simp del]

definition int_to_big_endian :: "int \<Rightarrow> error + byte list" where
  "int_to_big_endian x = (if x < 0 then Inl SerializationError else Inr (nat_to_big_endian (nat x)))"

text \<open>
  Python's \<open>int(s, 16)\<close>: optional whitespace, an optional sign, an optional \<open>0x\<close> or
  \<open>0X\<close> prefix (which one underscore may follow), then hex digits of either case in
  which single underscores may separate digits, then optional whitespace. Anything
  else raises \<open>ValueError\<close>. (The Unicode decimal digits that \<open>int\<close> also reads all
  lie beyond code point 255.)
\<close>

definition hex_value :: "string \<Rightarrow> nat" where
  "hex_value ds = foldl (\<lambda>a c. 16 * a + PyLong_DigitValue c) 0 ds"

fun underscores_ok :: "string \<Rightarrow> bool" where
  "underscores_ok [] = True"
| "underscores_ok [c] = (c \<noteq> CHR ''_'')"
| "underscores_ok (c # d # cs) = (\<not> (c = CHR ''_'' \<and> d = CHR ''_'') \<and> underscores_ok (d # cs))"

definition strip_sign :: "string \<Rightarrow> bool \<times> string" where
  "strip_sign s =
     (case s of
        [] \<Rightarrow> (False, s)
      | c # r \<Rightarrow> if c = CHR ''+'' then (False, r) else if c = CHR ''-'' then (True, r) else (False, s))"

definition strip_base_prefix :: "string \<Rightarrow> string" where
  "strip_base_prefix s =
     (case s of
        a # b # r \<Rightarrow>
          if a = CHR ''0'' \<and> (b = CHR ''x'' \<or> b = CHR ''X'')
          then (case r of u # r' \<Rightarrow> if u = CHR ''_'' then r' else r | [] \<Rightarrow> r)
          else s
      | _ \<Rightarrow> s)"

definition int_base16 :: "string \<Rightarrow> error + int" where
  "int_base16 s =
     (let (neg, s2) = strip_sign (dropWhile int_whitespace s);
          s3 = strip_base_prefix s2;
          body = takeWhile (\<lambda>c. is_hex_digit c \<or> c = CHR ''_'') s3;
          rest = dropWhile (\<lambda>c. is_hex_digit c \<or> c = CHR ''_'') s3;
          digits = filter (\<lambda>c. c \<noteq> CHR ''_'') body
      in if take 1 s3 = ''_'' then Inl ValueError
         else if underscores_ok body \<and> digits \<noteq> [] \<and> dropWhile int_whitespace rest = []
         then Inr (if neg then - int (hex_value digits) else int (hex_value digits))
         else Inl ValueError)"

subsection \<open>ScalarCodec: quantities and data\<close>

text \<open>\<open>quantity_decoder\<close>: the three checks set \<open>success = False\<close> and fall through to
  the final \<open>raise\<close>; the \<open>assert not success\<close> before it always passes.\<close>

definition quantity_decoder :: "json \<Rightarrow> error + int" where
  "quantity_decoder data =
     (case data of
        JStr s \<Rightarrow>
          if \<not> startswith s ''0x'' then Inl (InvalidParams ''Invalid quantity encoding'')
          else if length s > 3 \<and> s ! 2 = CHR ''0'' then Inl (InvalidParams ''Invalid quantity encoding'')
          else (case int_base16 (drop 2 s) of
                  Inr i \<Rightarrow> Inr i
                | Inl e \<Rightarrow> if e = ValueError then Inl (InvalidParams ''Invalid quantity encoding'')
                           else Inl e)
      | _ \<Rightarrow> Inl (InvalidParams ''Invalid quantity encoding''))"

definition quantity_encoder :: "int \<Rightarrow> error + string" where
  "quantity_encoder i =
     bind (int_to_big_endian i) (\<lambda>data.
       let h = lstrip (encode_hex data) CHR ''0''
       in Inr (''0x'' @ (if h = [] then ''0'' else h)))"

text \<open>\<open>data_decoder\<close>: a value without \<open>startswith\<close> raises \<open>AttributeError\<close>; the
  \<open>assert\<close> guards the padding branch only; only \<open>TypeError\<close> is caught.\<close>

definition data_decoder :: "json \<Rightarrow> error + byte list" where
  "data_decoder data =
     (case data of
        JStr s \<Rightarrow>
          let d1 = (if \<not> startswith s ''0x'' then ''0x'' @ s else s)
          in if length d1 mod 2 \<noteq> 0
             then (if \<not> length d1 < 64 + 2 then Inl AssertionError
                   else (let d2 = ''0x'' @ replicate (64 - (length d1 - 2)) CHR ''0'' @ drop 2 d1
                         in case decode_hex (drop 2 d2) of
                              Inl e \<Rightarrow> if e = TypeError then Inl (InvalidParams ''Invalid data hex encoding'')
                                       else Inl e
                            | Inr bs \<Rightarrow> Inr bs))
             else (case decode_hex (drop 2 d1) of
                     Inl e \<Rightarrow> if e = TypeError then Inl (InvalidParams ''Invalid data hex encoding'')
                              else Inl e
                   | Inr bs \<Rightarrow> Inr bs)
      | _ \<Rightarrow> Inl AttributeError)"

definition data_encoder :: "byte list \<Rightarrow> int option \<Rightarrow> string" where
  "data_encoder data len =
     (let s = encode_hex data
      in case len of
           None \<Rightarrow> ''0x'' @ s
         | Some l \<Rightarrow> ''0x'' @ rjust s (l * 2) CHR ''0'')"

subsection \<open>External collaborators\<close>

text \<open>
  The arguments \<open>sendTransaction\<close> passes to the \<open>EvmTransaction\<close> constructor, in the
  order of the call.
\<close>

record evm_args =
  arg_nonce :: int
  arg_gasprice :: int
  arg_startgas :: int
  arg_to :: "byte list"
  arg_value :: int
  arg_data :: "byte list"
  arg_v :: int
  arg_r :: int
  arg_s :: int
  arg_branchValue :: int
  arg_withdraw :: int
  arg_withdrawSign :: int
  arg_withdrawTo :: "byte list"

text \<open>
  The classes \<open>Address\<close>, \<open>Branch\<close>, \<open>Transaction\<close>, \<open>Code\<close> and \<open>EvmTransaction\<close> and
  the master service are imported by the module, not defined in it. They are taken as
  parameters: \<open>'a\<close> is the type of addresses, \<open>'b\<close> of branches, \<open>'t\<close> of transactions.
  A \<open>deserialize\<close> that raises returns the text of its exception; \<open>create_tx\<close> stands
  for \<open>Transaction(code=Code.createEvmCode(EvmTransaction(...)))\<close>.
\<close>

record ('a, 'b, 't) capabilities =
  address_deserialize :: "byte list \<Rightarrow> string + 'a"
  address_serialize :: "'a \<Rightarrow> byte list"
  address_recipient :: "'a \<Rightarrow> byte list"
  branch_deserialize :: "byte list \<Rightarrow> string + 'b"
  branch_serialize :: "'b \<Rightarrow> byte list"
  branch_value :: "'b \<Rightarrow> int"
  create_tx :: "evm_args \<Rightarrow> error + 't"
  tx_hash :: "'t \<Rightarrow> byte list"
  master_getTransactionCount :: "'a \<Rightarrow> error + ('b \<times> int)"
  master_addTx :: "'t \<Rightarrow> 'b \<Rightarrow> error + unit"

definition default_startgas :: int where
  "default_startgas = 500 * 1000"

definition default_gasprice :: int where
  "default_gasprice = 60 * 10 ^ 9"

subsection \<open>ObjectCodec and DomainDecoders\<close>

definition obj_decoder :: "json \<Rightarrow> (byte list \<Rightarrow> string + 'o) \<Rightarrow> error + 'o" where
  "obj_decoder data deserialize =
     bind (data_decoder data) (\<lambda>raw.
       case deserialize raw of
         Inl e \<Rightarrow> Inl (InvalidParams e)
       | Inr obj \<Rightarrow> Inr obj)"

text \<open>The \<open>assert isinstance(obj, cls)\<close> of \<open>obj_encoder\<close> holds by typing.\<close>

definition obj_encoder :: "'o \<Rightarrow> ('o \<Rightarrow> byte list) \<Rightarrow> string" where
  "obj_encoder obj serialize = ''0x'' @ encode_hex (serialize obj)"

definition address_decoder :: "('a, 'b, 't) capabilities \<Rightarrow> json \<Rightarrow> error + 'a" where
  "address_decoder caps data = obj_decoder data (address_deserialize caps)"

definition address_encoder :: "('a, 'b, 't) capabilities \<Rightarrow> 'a \<Rightarrow> string" where
  "address_encoder caps address = obj_encoder address (address_serialize caps)"

text \<open>
  \<open>branch_decoder\<close> and \<open>branch_encoder\<close> call the object codec and have no \<open>return\<close>
  statement: the call is made (and can raise), its value is dropped, and the function
  returns \<open>None\<close>.
\<close>

definition branch_decoder :: "('a, 'b, 't) capabilities \<Rightarrow> json \<Rightarrow> error + 'b option" where
  "branch_decoder caps data = bind (obj_decoder data (branch_deserialize caps)) (\<lambda>decoded. Inr None)"

definition branch_encoder :: "('a, 'b, 't) capabilities \<Rightarrow> 'b \<Rightarrow> string option" where
  "branch_encoder caps branch = (let encoded = obj_encoder branch (branch_serialize caps) in None)"

datatype block_id = BlockTag json | BlockNumber int

definition block_id_decoder :: "json \<Rightarrow> error + block_id" where
  "block_id_decoder data =
     (if data \<in> set [JNull, JStr ''latest'', JStr ''earliest'', JStr ''pending'']
      then Inr (BlockTag data)
      else bind (quantity_decoder data) (\<lambda>n. Inr (BlockNumber n)))"

subsection \<open>The handlers\<close>

text \<open>A Python value that may be \<open>None\<close> is an \<open>option\<close>; \<open>json_of_optional\<close> is how such
  a string appears in a JSON result.\<close>

definition nullable :: "(json \<Rightarrow> error + 'v) \<Rightarrow> json \<Rightarrow> error + 'v option" where
  "nullable decoder data = bind (decoder data) (\<lambda>v. Inr (Some v))"

definition json_of_optional :: "string option \<Rightarrow> json" where
  "json_of_optional r = (case r of None \<Rightarrow> JNull | Some s \<Rightarrow> JStr s)"

text \<open>
  \<open>getTransactionCount\<close>: the decorators decode \<open>address\<close>, then \<open>blockId\<close> (which is
  \<open>"pending"\<close> when the caller leaves it out), then the body asks the master service
  and builds the result dict.
\<close>

definition getTransactionCount ::
  "('a, 'b, 't) capabilities \<Rightarrow> json \<Rightarrow> json option \<Rightarrow> error + (string \<times> json) list" where
  "getTransactionCount caps address blockId =
     bind (address_decoder caps address) (\<lambda>address'.
     bind (block_id_decoder (case blockId of None \<Rightarrow> JStr ''pending'' | Some b \<Rightarrow> b)) (\<lambda>blockId'.
     bind (master_getTransactionCount caps address') (\<lambda>(branch, count).
     let branch_entry = json_of_optional (branch_encoder caps branch)
     in bind (quantity_encoder count) (\<lambda>count_entry.
          Inr [(''branch'', branch_entry), (''count'', JStr count_entry)]))))"

definition getDataDefault ::
  "(string \<times> json) list \<Rightarrow> string \<Rightarrow> (json \<Rightarrow> error + 'v) \<Rightarrow> 'v \<Rightarrow> error + 'v" where
  "getDataDefault data key decoder dflt =
     (case map_of data key of
        Some raw \<Rightarrow> decoder raw
      | None \<Rightarrow> Inr dflt)"

text \<open>
  The body of \<open>sendTransaction\<close> on a dict, up to the constructed transaction: the
  twelve field reads in source order, the four checks in source order, then the
  constructor call, whose argument \<open>to.recipient\<close> raises \<open>AttributeError\<close> when \<open>to\<close>
  is \<open>None\<close>.
\<close>

definition sendTransaction_build ::
  "('a, 'b, 't) capabilities \<Rightarrow> (string \<times> json) list \<Rightarrow> error + ('t \<times> 'b)" where
  "sendTransaction_build caps data =
     bind (getDataDefault data ''to'' (nullable (address_decoder caps)) None) (\<lambda>to.
     bind (getDataDefault data (if map_of data ''gas'' \<noteq> None then ''gas'' else ''startgas'')
             quantity_decoder default_startgas) (\<lambda>startgas.
     bind (getDataDefault data (if map_of data ''gasPrice'' \<noteq> None then ''gasPrice'' else ''gasprice'')
             quantity_decoder default_gasprice) (\<lambda>gasprice.
     bind (getDataDefault data ''value'' quantity_decoder 0) (\<lambda>val.
     bind (getDataDefault data ''data'' data_decoder []) (\<lambda>data'.
     bind (getDataDefault data ''v'' quantity_decoder 0) (\<lambda>v.
     bind (getDataDefault data ''r'' quantity_decoder 0) (\<lambda>r.
     bind (getDataDefault data ''s'' quantity_decoder 0) (\<lambda>s.
     bind (getDataDefault data ''nonce'' (nullable quantity_decoder) None) (\<lambda>nonce.
     bind (getDataDefault data ''branch'' (branch_decoder caps) None) (\<lambda>branch.
     bind (getDataDefault data ''withdraw'' quantity_decoder 0) (\<lambda>withdraw.
     bind (getDataDefault data ''withdrawTo'' (nullable (address_decoder caps)) None) (\<lambda>withdrawTo.
       case nonce of
         None \<Rightarrow> Inl (InvalidParams ''Missing nonce'')
       | Some nonce' \<Rightarrow>
           if \<not> (v \<noteq> 0 \<and> r \<noteq> 0 \<and> s \<noteq> 0) then Inl (InvalidParams ''Mising v, r, s'')
           else (case branch of
               None \<Rightarrow> Inl (InvalidParams ''Missing branch'')
             | Some branch' \<Rightarrow>
                 if withdraw > 0 \<and> withdrawTo = None then Inl (InvalidParams ''Missing withdrawTo'')
                 else (case to of
                     None \<Rightarrow> Inl AttributeError
                   | Some to' \<Rightarrow>
                       bind (create_tx caps
                              \<lparr>arg_nonce = nonce', arg_gasprice = gasprice, arg_startgas = startgas,
                               arg_to = address_recipient caps to', arg_value = val,
                               arg_data = data', arg_v = v, arg_r = r, arg_s = s,
                               arg_branchValue = branch_value caps branch',
                               arg_withdraw = withdraw, arg_withdrawSign = 1,
                               arg_withdrawTo =
                                 (case withdrawTo of
                                    Some w \<Rightarrow> address_serialize caps w
                                  | None \<Rightarrow> [])\<rparr>)
                         (\<lambda>tx. Inr (tx, branch'))))))))))))))))"

text \<open>
  \<open>sendTransaction\<close> returns its outcome together with the calls it made to
  \<open>master.addTx\<close>, in order: the list is empty when the handler raised before the
  submission. The \<open>Logger.debug\<close> call after the submission is left out.
\<close>

definition sendTransaction ::
  "('a, 'b, 't) capabilities \<Rightarrow> json \<Rightarrow> (error + string) \<times> ('t \<times> 'b) list" where
  "sendTransaction caps data =
     (case data of
        JObj entries \<Rightarrow>
          (case sendTransaction_build caps entries of
             Inl e \<Rightarrow> (Inl e, [])
           | Inr (tx, branch) \<Rightarrow>
               (case master_addTx caps tx branch of
                  Inl e \<Rightarrow> (Inl e, [(tx, branch)])
                | Inr ok \<Rightarrow> (Inr (data_encoder (tx_hash caps tx) None), [(tx, branch)])))
      | _ \<Rightarrow> (Inl (InvalidParams ''Transaction must be an object''), []))"

subsection \<open>A concrete serializer and master service\<close>

text \<open>
  Modelled from the spec: the domain serializer and the master service (the classes of
  \<open>quarkchain.core\<close> and the \<open>masterServer\<close> object) are not part of this module; the
  spec describes Address and Branch as opaque fixed-format byte buffers. In this
  instance an Address is its 24-byte buffer (a 20-byte recipient and a 4-byte shard
  id), a Branch is its 4-byte buffer read as a big-endian number, a transaction is the
  record of its constructor arguments with an all-zero 32-byte hash, and the master
  service answers every call successfully.
\<close>

definition big_endian_to_int :: "byte list \<Rightarrow> int" where
  "big_endian_to_int bs = foldl (\<lambda>a b. 256 * a + int (unat b)) 0 bs"

definition sample_caps :: "(byte list, byte list, evm_args) capabilities" where
  "sample_caps =
     \<lparr>address_deserialize = (\<lambda>bs. if length bs = 24 then Inr bs else Inl ''address: 24 bytes expected''),
      address_serialize = (\<lambda>a. a),
      address_recipient = take 20,
      branch_deserialize = (\<lambda>bs. if length bs = 4 then Inr bs else Inl ''branch: 4 bytes expected''),
      branch_serialize = (\<lambda>b. b),
      branch_value = big_endian_to_int,
      create_tx = Inr,
      tx_hash = (\<lambda>t. replicate 32 0),
      master_getTransactionCount = (\<lambda>a. Inr ([0, 0, 0, 1], 5)),
      master_addTx = (\<lambda>t b. Inr ())\<rparr>"

subsection \<open>Predicates used in the statements\<close>

text \<open>The characters after the \<open>0x\<close> prefix, once \<open>data_decoder\<close> has put the prefix in
  front of a string that lacks it; and the lower-case form of a hex digit.\<close>

definition hex_payload :: "string \<Rightarrow> string" where
  "hex_payload raw = (if startswith raw ''0x'' then drop 2 raw else raw)"

definition lower_case_digit :: "char \<Rightarrow> char" where
  "lower_case_digit c = hex_char (PyLong_DigitValue c)"

text \<open>The characters \<open>encode_hex\<close> writes: \<open>0\<close> to \<open>9\<close> and \<open>a\<close> to \<open>f\<close>.\<close>

definition lower_hex :: "char \<Rightarrow> bool" where
  "lower_hex c = (let n = (of_char c :: nat) in (48 \<le> n \<and> n \<le> 57) \<or> (97 \<le> n \<and> n \<le> 102))"

text \<open>
  An exception that a field decoder of \<open>sendTransaction\<close> lets through unwrapped: one of
  the three that \<open>data_decoder\<close> raises besides \<open>InvalidParams\<close>, raised by
  \<open>data_decoder\<close> on the value of one of the four fields decoded through it.
\<close>

definition escaped :: "(string \<times> json) list \<Rightarrow> error \<Rightarrow> bool" where
  "escaped data e =
     (list_ex (\<lambda>x. x = e) [AttributeError, AssertionError, ValueError]
      \<and> list_ex (\<lambda>key. case map_of data key of Some raw \<Rightarrow> data_decoder raw = Inl e | None \<Rightarrow> False)
           [''to'', ''data'', ''branch'', ''withdrawTo''])"

section \<open>Properties of the hex primitives\<close>

lemma hex_char_digit: "n < 16 \<Longrightarrow> PyLong_DigitValue (hex_char n) = n"
  by (auto simp: PyLong_DigitValue_def hex_char_def Let_def)

lemma hex_char_is_hex: "n < 16 \<Longrightarrow> is_hex_digit (hex_char n)"
  by (simp add: is_hex_digit_def hex_char_digit)

lemma hex_char_not_space: "n < 16 \<Longrightarrow> \<not> Py_ISSPACE (hex_char n)"
  by (auto simp: Py_ISSPACE_def hex_char_def Let_def)

lemma unat_byte_div16: "unat (b :: byte) div 16 < 16"
  using unsigned_less [of b, where ?'a = nat] by simp

lemma decode_encode_hex:
  "decode_hex (encode_hex bs @ cs) = (case decode_hex cs of Inl e \<Rightarrow> Inl e | Inr r \<Rightarrow> Inr (bs @ r))"
  by (induction bs)
    (auto simp: encode_hex_def hex_char_digit hex_char_is_hex hex_char_not_space unat_byte_div16
      split: sum.splits)

lemma length_encode_hex: "length (encode_hex bs) = 2 * length bs"
  by (induction bs) (simp_all add: encode_hex_def)

lemma decode_hex_encode_hex: "decode_hex (encode_hex bs) = Inr bs"
  using decode_encode_hex [of bs "[]"] by simp

lemma lower_hex_hex_char: "n < 16 \<Longrightarrow> lower_hex (hex_char n)"
  by (simp add: lower_hex_def hex_char_def)

lemma lower_hex_props:
  assumes "lower_hex c"
  shows "is_hex_digit c" "\<not> Py_ISSPACE c" "c \<noteq> CHR ''_''" "c \<noteq> CHR ''+''" "c \<noteq> CHR ''-''"
    "c \<noteq> CHR ''x''" "c \<noteq> CHR ''X''" "\<not> int_whitespace c"
  using assms
  by (auto simp: lower_hex_def is_hex_digit_def PyLong_DigitValue_def Py_ISSPACE_def
      int_whitespace_def Let_def)

lemma encode_hex_lower: "c \<in> set (encode_hex bs) \<Longrightarrow> lower_hex c"
  by (induction bs) (auto simp: encode_hex_def lower_hex_hex_char unat_byte_div16)

lemma encode_hex_snoc:
  "encode_hex (bs @ [b]) = encode_hex bs @ [hex_char (unat b div 16), hex_char (unat b mod 16)]"
  by (simp add: encode_hex_def)

lemma hex_value_snoc2:
  "hex_value (s @ [c, d]) = 256 * hex_value s + 16 * PyLong_DigitValue c + PyLong_DigitValue d"
  by (simp add: hex_value_def)

text \<open>The hex digits of the big-endian bytes of \<open>n\<close> denote \<open>n\<close>.\<close>

lemma hex_value_big_endian: "hex_value (encode_hex (nat_to_big_endian n)) = n"
proof (induction n rule: nat_to_big_endian.induct)
  case (1 n)
  show ?case
  proof (cases "n = 0")
    case True
    then show ?thesis by (simp add: nat_to_big_endian.simps encode_hex_def hex_value_def)
  next
    case False
    have u: "unat (of_nat (n mod 256) :: byte) = n mod 256"
      by (simp add: unat_of_nat)
    from False have "nat_to_big_endian n = nat_to_big_endian (n div 256) @ [of_nat (n mod 256)]"
      by (subst nat_to_big_endian.simps) simp
    then have "hex_value (encode_hex (nat_to_big_endian n)) =
        256 * hex_value (encode_hex (nat_to_big_endian (n div 256)))
          + 16 * (n mod 256 div 16) + n mod 256 mod 16"
      by (simp add: encode_hex_snoc hex_value_snoc2 hex_char_digit u)
    also have "\<dots> = 256 * (n div 256) + n mod 256"
      using 1 [OF False] by simp
    finally show ?thesis by simp
  qed
qed

lemma hex_value_lstrip: "hex_value (lstrip s CHR ''0'') = hex_value s"
  by (induction s) (simp_all add: lstrip_def hex_value_def PyLong_DigitValue_def)

text \<open>On a non-empty run of lower-case hex digits \<open>int(s, 16)\<close> takes none of its
  lenient paths and returns the value of the digits.\<close>

lemma int_base16_lower_hex:
  assumes "ds \<noteq> []" and "\<forall>c \<in> set ds. lower_hex c"
  shows "int_base16 ds = Inr (int (hex_value ds))"
proof -
  obtain c r where ds: "ds = c # r" using assms(1) by (cases ds) auto
  have c: "lower_hex c" using assms(2) ds by simp
  have sp: "dropWhile int_whitespace ds = ds"
    using lower_hex_props(8) [OF c] ds by simp
  have sg: "strip_sign ds = (False, ds)"
    using lower_hex_props(4,5) [OF c] ds by (simp add: strip_sign_def)
  have pf: "strip_base_prefix ds = ds"
  proof (cases r)
    case Nil
    then show ?thesis using ds by (simp add: strip_base_prefix_def)
  next
    case (Cons d r')
    then have "lower_hex d" using assms(2) ds by simp
    then show ?thesis
      using lower_hex_props(6,7) ds Cons by (simp add: strip_base_prefix_def)
  qed
  have all: "\<forall>c \<in> set ds. is_hex_digit c \<or> c = CHR ''_''"
    using assms(2) lower_hex_props(1) by blast
  have tk: "takeWhile (\<lambda>c. is_hex_digit c \<or> c = CHR ''_'') ds = ds"
    using all by simp
  have dr: "dropWhile (\<lambda>c. is_hex_digit c \<or> c = CHR ''_'') ds = []"
    using all by simp
  have nu: "\<forall>c \<in> set ds. c \<noteq> CHR ''_''"
    using assms(2) lower_hex_props(3) by blast
  have fl: "filter (\<lambda>c. c \<noteq> CHR ''_'') ds = ds"
    using nu by (simp add: filter_id_conv)
  have uo: "underscores_ok ds"
    using nu by (induction ds rule: underscores_ok.induct) auto
  have t1: "take 1 ds \<noteq> ''_''"
    using lower_hex_props(3) [OF c] ds by simp
  show ?thesis
    using assms(1) uo t1
    by (simp add: int_base16_def sp sg pf tk dr fl)
qed

section \<open>Round trips\<close>

text \<open>
  C3. For every non-negative integer \<open>x\<close> the quantity encoder succeeds, and decoding
  the string it returns gives \<open>x\<close> back: \<open>quantity_decoder(quantity_encoder(x)) == x\<close>.
\<close>

theorem quantity_roundtrip:
  assumes "0 \<le> x"
  shows "\<exists>s. quantity_encoder x = Inr s \<and> quantity_decoder (JStr s) = Inr x"
proof -
  define h where "h = lstrip (encode_hex (nat_to_big_endian (nat x))) CHR ''0''"
  define s where "s = ''0x'' @ (if h = [] then ''0'' else h)"
  have enc: "quantity_encoder x = Inr s"
    using assms by (simp add: quantity_encoder_def int_to_big_endian_def bind_def h_def s_def Let_def)
  have val: "hex_value h = nat x"
    by (simp add: h_def hex_value_lstrip hex_value_big_endian)
  have low: "\<forall>c \<in> set h. lower_hex c"
    unfolding h_def lstrip_def using encode_hex_lower set_dropWhileD by fast
  have dec: "quantity_decoder (JStr s) = Inr x"
  proof (cases "h = []")
    case True
    then have "nat x = 0" using val by (simp add: hex_value_def)
    then have "x = 0" using assms by simp
    moreover have "int_base16 ''0'' = Inr 0" by code_simp
    ultimately show ?thesis
      using True by (simp add: quantity_decoder_def s_def startswith_def)
  next
    case False
    have "hd h \<noteq> CHR ''0''"
      using False hd_dropWhile [of "\<lambda>d. d = CHR ''0''"] unfolding h_def lstrip_def by blast
    then have "s ! 2 \<noteq> CHR ''0''"
      using False by (cases h) (simp_all add: s_def)
    moreover have "int_base16 h = Inr x"
      using int_base16_lower_hex [OF False low] val assms by simp
    ultimately show ?thesis
      using False by (simp add: quantity_decoder_def s_def startswith_def)
  qed
  show ?thesis using enc dec by blast
qed

theorem quantity_roundtrip_witness:
  "(0::int) \<le> 255 \<and> (\<exists>s. quantity_encoder 255 = Inr s \<and> quantity_decoder (JStr s) = Inr 255)"
  using quantity_roundtrip [of 255] by simp

text \<open>
  C4. For every byte sequence \<open>b\<close>, encoding with \<open>data_encoder\<close> without a length and
  decoding the result with \<open>data_decoder\<close> returns \<open>b\<close>.
\<close>

theorem data_roundtrip: "data_decoder (JStr (data_encoder b None)) = Inr b"
  by (simp add: data_decoder_def data_encoder_def startswith_def length_encode_hex
      decode_hex_encode_hex)

theorem data_roundtrip_witness:
  "data_decoder (JStr (data_encoder [0xde, 0xad, 0x00] None)) = Inr [0xde, 0xad, 0x00]"
  by (rule data_roundtrip)

section \<open>Padding on encode\<close>

text \<open>
  C9. For every byte buffer \<open>b\<close> and length \<open>L\<close>, \<open>data_encoder(b, L)\<close> is \<open>0x\<close> followed
  by the hex digits of \<open>b\<close> with zeros put in front of them up to \<open>2 * L\<close> characters:
  exactly \<open>2 * L\<close> digits when \<open>b\<close> has at most \<open>L\<close> bytes, and all \<open>2 * len(b)\<close> digits
  of \<open>b\<close>, none cut off, when it has more. \<open>data_encoder(b'\xff', 3)\<close> is \<open>0x0000ff\<close>.
\<close>

theorem data_encoder_padding:
  "data_encoder b (Some L) = ''0x'' @ replicate (nat (2 * L) - 2 * length b) CHR ''0'' @ encode_hex b
   \<and> length (drop 2 (data_encoder b (Some L))) = (if int (length b) \<le> L then nat (2 * L) else 2 * length b)
   \<and> drop (length (data_encoder b (Some L)) - 2 * length b) (data_encoder b (Some L)) = encode_hex b
   \<and> data_encoder [0xff] (Some 3) = ''0x0000ff''"
  apply (intro conjI)
  subgoal by (simp add: data_encoder_def rjust_def length_encode_hex nat_diff_distrib' mult.commute nat_mult_distrib)
  subgoal by (auto simp add: data_encoder_def rjust_def length_encode_hex)
  subgoal by (simp add: data_encoder_def rjust_def length_encode_hex)
  subgoal by code_simp
  done

theorem data_encoder_padding_witness:
  "length (drop 2 (data_encoder [0x12, 0x34] (Some 4))) = 8
   \<and> length (drop 2 (data_encoder [0x12, 0x34] (Some 1))) = 4"
  using data_encoder_padding [of "[0x12, 0x34]" 4, THEN conjunct2, THEN conjunct1]
    data_encoder_padding [of "[0x12, 0x34]" 1, THEN conjunct2, THEN conjunct1]
  by simp

section \<open>Decoding data\<close>

lemma is_hex_digit_not_space: "is_hex_digit c \<Longrightarrow> \<not> Py_ISSPACE c"
  by (auto simp: is_hex_digit_def PyLong_DigitValue_def Py_ISSPACE_def Let_def split: if_splits)

lemma byte_of_nibbles:
  assumes "a < 16" "b < 16"
  shows "unat (of_nat (16 * a + b) :: byte) div 16 = a" "unat (of_nat (16 * a + b) :: byte) mod 16 = b"
proof -
  have "16 * a + b < 256" using assms by simp
  then have u: "unat (of_nat (16 * a + b) :: byte) = 16 * a + b"
    by (simp only: unat_of_nat) simp
  show "unat (of_nat (16 * a + b) :: byte) div 16 = a"
    unfolding u using assms by simp
  show "unat (of_nat (16 * a + b) :: byte) mod 16 = b"
    unfolding u using assms by simp
qed

text \<open>An even number of hex digits decodes to half as many bytes, whose hex form is
  the digits in lower case.\<close>

lemma decode_hex_digits:
  assumes "even (length s)" and "\<forall>c \<in> set s. is_hex_digit c"
  shows "\<exists>bs. decode_hex s = Inr bs \<and> 2 * length bs = length s \<and> encode_hex bs = map lower_case_digit s"
  using assms
proof (induction s rule: decode_hex.induct)
  case 1
  then show ?case by (simp add: encode_hex_def)
next
  case (2 c)
  then show ?case by simp
next
  case (3 c d cs)
  then obtain bs where bs: "decode_hex cs = Inr bs" "2 * length bs = length cs"
      "encode_hex bs = map lower_case_digit cs"
    using is_hex_digit_not_space by auto
  have cd: "PyLong_DigitValue c < 16" "PyLong_DigitValue d < 16"
    using 3(4) by (simp_all add: is_hex_digit_def)
  show ?case
    using bs 3(4) is_hex_digit_not_space [of c] byte_of_nibbles [OF cd]
    by (simp add: encode_hex_def lower_case_digit_def)
qed

lemma hex_payload_cases:
  "(if \<not> startswith raw ''0x'' then ''0x'' @ raw else raw) = ''0x'' @ hex_payload raw"
proof (cases "startswith raw ''0x''")
  case True
  then have "take 2 raw = ''0x''" by (simp add: startswith_def numeral_2_eq_2)
  then have "''0x'' @ drop 2 raw = raw" by (metis append_take_drop_id)
  then show ?thesis using True by (simp add: hex_payload_def)
next
  case False
  then show ?thesis by (simp add: hex_payload_def)
qed

lemma decode_hex_error: "decode_hex s = Inl e \<Longrightarrow> e = ValueError"
  by (induction s rule: decode_hex.induct) (auto split: if_splits sum.splits)

text \<open>\<open>data_decoder\<close> never raises \<open>InvalidParams\<close>: its handler waits for a
  \<open>TypeError\<close> that \<open>decode_hex\<close> does not raise on a str.\<close>

lemma data_decoder_error:
  "data_decoder j = Inl e \<Longrightarrow> e = AttributeError \<or> e = AssertionError \<or> e = ValueError"
  by (auto simp: data_decoder_def Let_def split: json.splits if_splits sum.splits
      dest: decode_hex_error)

text \<open>
  C7. Take the characters of the input after the \<open>0x\<close> prefix (put in front when
  missing). When they are an odd number of hex digits, at most 63, \<open>data_decoder\<close>
  returns 32 bytes: the digits with zeros in front up to 64. When their number is odd
  and above 63, \<open>data_decoder\<close> fails (the assertion). When they are an even number of
  hex digits, of any length, \<open>data_decoder\<close> returns half as many bytes: the ceiling
  is on the odd-length path only.
\<close>

theorem data_decoder_legacy_padding:
  "(odd (length (hex_payload raw)) \<and> length (hex_payload raw) \<le> 63
      \<and> (\<forall>c \<in> set (hex_payload raw). is_hex_digit c)
     \<longrightarrow> (\<exists>bs. data_decoder (JStr raw) = Inr bs \<and> length bs = 32
            \<and> encode_hex bs =
                map lower_case_digit (replicate (64 - length (hex_payload raw)) CHR ''0'' @ hex_payload raw)))
   \<and> (odd (length (hex_payload raw)) \<and> 63 < length (hex_payload raw)
     \<longrightarrow> data_decoder (JStr raw) = Inl AssertionError)
   \<and> (even (length (hex_payload raw)) \<and> (\<forall>c \<in> set (hex_payload raw). is_hex_digit c)
     \<longrightarrow> (\<exists>bs. data_decoder (JStr raw) = Inr bs \<and> 2 * length bs = length (hex_payload raw)
            \<and> encode_hex bs = map lower_case_digit (hex_payload raw)))"
proof -
  define ds where "ds = hex_payload raw"
  have d1: "(if \<not> startswith raw ''0x'' then ''0x'' @ raw else raw) = ''0x'' @ ds"
    by (simp only: hex_payload_cases ds_def)
  have pad: "\<exists>bs. data_decoder (JStr raw) = Inr bs \<and> length bs = 32
            \<and> encode_hex bs = map lower_case_digit (replicate (64 - length ds) CHR ''0'' @ ds)"
    if h: "odd (length ds)" "length ds \<le> 63" "\<forall>c \<in> set ds. is_hex_digit c"
  proof -
    let ?p = "replicate (64 - length ds) CHR ''0'' @ ds"
    have z: "is_hex_digit CHR ''0''" by (simp add: is_hex_digit_def PyLong_DigitValue_def)
    have len: "length ?p = 64" using h(2) by simp
    have "\<forall>c \<in> set ?p. is_hex_digit c" using h(3) z by auto
    moreover have "even (length ?p)" using len by simp
    ultimately obtain bs where bs: "decode_hex ?p = Inr bs" "2 * length bs = length ?p"
        "encode_hex bs = map lower_case_digit ?p"
      using decode_hex_digits [of ?p] by blast
    have "data_decoder (JStr raw) = Inr bs"
      using h(1,2) bs(1) by (simp add: data_decoder_def d1 Let_def odd_iff_mod_2_eq_one)
    moreover have "length bs = 32" using bs(2) len by simp
    ultimately show ?thesis using bs(3) by blast
  qed
  have ceil: "data_decoder (JStr raw) = Inl AssertionError"
    if h: "odd (length ds)" "63 < length ds"
    using h by (simp add: data_decoder_def d1 Let_def odd_iff_mod_2_eq_one)
  have evn: "\<exists>bs. data_decoder (JStr raw) = Inr bs \<and> 2 * length bs = length ds
            \<and> encode_hex bs = map lower_case_digit ds"
    if h: "even (length ds)" "\<forall>c \<in> set ds. is_hex_digit c"
  proof -
    obtain bs where bs: "decode_hex ds = Inr bs" "2 * length bs = length ds"
        "encode_hex bs = map lower_case_digit ds"
      using decode_hex_digits [OF h] by blast
    have "data_decoder (JStr raw) = Inr bs"
      using h(1) bs(1) by (simp add: data_decoder_def d1 Let_def even_iff_mod_2_eq_zero)
    then show ?thesis using bs(2,3) by blast
  qed
  show ?thesis
    unfolding ds_def [symmetric] using pad ceil evn by blast
qed

theorem data_decoder_legacy_padding_witness:
  "(\<exists>bs. data_decoder (JStr ''0xabc'') = Inr bs \<and> length bs = 32)
   \<and> data_decoder (JStr (''0x'' @ replicate 65 CHR ''a'')) = Inl AssertionError
   \<and> (\<exists>bs. data_decoder (JStr (replicate 66 CHR ''F'')) = Inr bs \<and> length bs = 33)"
proof -
  have h1: "odd (length (hex_payload ''0xabc'')) \<and> length (hex_payload ''0xabc'') \<le> 63
      \<and> (\<forall>c \<in> set (hex_payload ''0xabc''). is_hex_digit c)"
    by code_simp
  have h2: "odd (length (hex_payload (''0x'' @ replicate 65 CHR ''a'')))
      \<and> 63 < length (hex_payload (''0x'' @ replicate 65 CHR ''a''))"
    by code_simp
  have p3: "length (hex_payload (replicate 66 CHR ''F'')) = 66"
    by code_simp
  have h3: "even (length (hex_payload (replicate 66 CHR ''F'')))
      \<and> (\<forall>c \<in> set (hex_payload (replicate 66 CHR ''F'')). is_hex_digit c)"
    by code_simp
  from data_decoder_legacy_padding [of "''0xabc''", THEN conjunct1, rule_format, OF h1]
  obtain bs where "data_decoder (JStr ''0xabc'') = Inr bs" "length bs = 32" by (elim exE conjE)
  then have c1: "\<exists>bs. data_decoder (JStr ''0xabc'') = Inr bs \<and> length bs = 32" by (intro exI conjI)
  have c2: "data_decoder (JStr (''0x'' @ replicate 65 CHR ''a'')) = Inl AssertionError"
    by (rule data_decoder_legacy_padding [THEN conjunct2, THEN conjunct1, rule_format, OF h2])
  from data_decoder_legacy_padding [of "replicate 66 CHR ''F''", THEN conjunct2, THEN conjunct2, rule_format, OF h3]
  obtain bs' where "data_decoder (JStr (replicate 66 CHR ''F'')) = Inr bs'" "2 * length bs' = 66"
    unfolding p3 by (elim exE conjE) simp
  then have c3: "\<exists>bs. data_decoder (JStr (replicate 66 CHR ''F'')) = Inr bs \<and> length bs = 33"
    by (intro exI [of _ bs'] conjI) simp_all
  show ?thesis by (intro conjI c1 c2 c3)
qed

text \<open>
  C8. The spec has \<open>data_decoder\<close> fail with the parameter error
  \<open>InvalidParams("Invalid data hex encoding")\<close> on characters that are not hex digits.
  On \<open>"0xzz"\<close> (two characters after the prefix, so no padding) \<open>decode_hex\<close> raises
  \<open>ValueError\<close>, the handler catches \<open>TypeError\<close> only, and the \<open>ValueError\<close> leaves
  \<open>data_decoder\<close> unwrapped.
\<close>

theorem data_decoder_non_hex:
  "data_decoder (JStr ''0xzz'') = Inl ValueError"
  by code_simp

section \<open>Decoding quantities\<close>

lemma int_base16_error: "int_base16 s = Inl e \<Longrightarrow> e = ValueError"
  by (auto simp: int_base16_def Let_def split: prod.splits if_splits)

lemma quantity_decoder_error: "quantity_decoder j = Inl e \<Longrightarrow> is_InvalidParams e"
  by (auto simp: quantity_decoder_def split: json.splits if_splits sum.splits dest: int_base16_error)

text \<open>The three explicit checks of \<open>quantity_decoder\<close> and the three examples of the
  spec: a value that is not a str, a str without the prefix and a str with a zero
  right after the prefix (other than \<open>0x0\<close>) are refused.\<close>

lemma quantity_decoder_rejects:
  "(\<forall>s. data \<noteq> JStr s) \<longrightarrow> quantity_decoder data = Inl (InvalidParams ''Invalid quantity encoding'')"
  "\<not> startswith s ''0x'' \<longrightarrow> quantity_decoder (JStr s) = Inl (InvalidParams ''Invalid quantity encoding'')"
  "length s > 3 \<and> s ! 2 = CHR ''0'' \<longrightarrow> quantity_decoder (JStr s) = Inl (InvalidParams ''Invalid quantity encoding'')"
  "quantity_decoder (JStr ''0x0ff'') = Inl (InvalidParams ''Invalid quantity encoding'')"
  "quantity_decoder (JStr ''ff'') = Inl (InvalidParams ''Invalid quantity encoding'')"
  "quantity_decoder (JInt 123) = Inl (InvalidParams ''Invalid quantity encoding'')"
  by (auto simp: quantity_decoder_def startswith_def split: json.splits)

text \<open>
  C6. The spec has \<open>quantity_decoder\<close> fail on every string with a character after the
  prefix that is not a hex digit. The digits are left to \<open>int(data, 16)\<close>, which also
  reads a sign: \<open>"0x-1"\<close> is decoded to the negative number \<open>-1\<close>, and \<open>"0x+0ff"\<close>,
  where the sign hides a leading zero from the check on \<open>data[2]\<close>, to \<open>255\<close>.
\<close>

theorem quantity_decoder_accepts_sign:
  "quantity_decoder (JStr ''0x-1'') = Inr (- 1) \<and> quantity_decoder (JStr ''0x+0ff'') = Inr 255"
  by code_simp

section \<open>The handlers\<close>

lemma branch_encoder_None: "branch_encoder caps b = None"
  by (simp add: branch_encoder_def)

lemma obj_decoder_error:
  "obj_decoder j d = Inl e \<Longrightarrow> is_InvalidParams e \<or> data_decoder j = Inl e"
  by (auto simp: obj_decoder_def bind_def split: sum.splits)

lemma bind_failsI:
  assumes "\<And>e. m = Inl e \<Longrightarrow> P e" and "\<And>x. m = Inr x \<Longrightarrow> \<exists>e. f x = Inl e \<and> P e"
  shows "\<exists>e. bind m f = Inl e \<and> P e"
  using assms by (cases m) (auto simp: bind_def)

lemma gdd_quantity:
  "getDataDefault data key quantity_decoder d = Inl e \<Longrightarrow> is_InvalidParams e \<or> escaped data e"
  by (auto simp: getDataDefault_def split: option.splits dest: quantity_decoder_error)

lemma gdd_nullable_quantity:
  "getDataDefault data key (nullable quantity_decoder) d = Inl e \<Longrightarrow> is_InvalidParams e \<or> escaped data e"
  by (auto simp: getDataDefault_def nullable_def bind_def split: option.splits sum.splits
      dest: quantity_decoder_error)

lemma escapedI:
  assumes "map_of data key = Some raw" "data_decoder raw = Inl e"
    "key = ''to'' \<or> key = ''data'' \<or> key = ''branch'' \<or> key = ''withdrawTo''"
  shows "escaped data e"
  using assms data_decoder_error [OF assms(2)] by (auto simp: escaped_def)

lemma gdd_data:
  "getDataDefault data ''data'' data_decoder d = Inl e \<Longrightarrow> is_InvalidParams e \<or> escaped data e"
  by (auto simp: getDataDefault_def split: option.splits intro: escapedI)

lemma gdd_address:
  assumes "getDataDefault data key (nullable (address_decoder caps)) d = Inl e"
    and "key = ''to'' \<or> key = ''withdrawTo''"
  shows "is_InvalidParams e \<or> escaped data e"
proof -
  obtain raw where raw: "map_of data key = Some raw" "address_decoder caps raw = Inl e"
    using assms(1) by (auto simp: getDataDefault_def nullable_def bind_def split: option.splits sum.splits)
  then have "is_InvalidParams e \<or> data_decoder raw = Inl e"
    using obj_decoder_error by (simp add: address_decoder_def)
  then show ?thesis using raw(1) assms(2) escapedI by blast
qed

lemma gdd_branch:
  assumes "getDataDefault data ''branch'' (branch_decoder caps) d = Inl e"
  shows "is_InvalidParams e \<or> escaped data e"
proof -
  obtain raw where raw: "map_of data ''branch'' = Some raw" "obj_decoder raw (branch_deserialize caps) = Inl e"
    using assms by (auto simp: getDataDefault_def branch_decoder_def bind_def split: option.splits sum.splits)
  then have "is_InvalidParams e \<or> data_decoder raw = Inl e"
    using obj_decoder_error by blast
  then show ?thesis using raw(1) escapedI by blast
qed

text \<open>Whatever the request holds under \<open>branch\<close>, the variable \<open>branch\<close> is \<open>None\<close>.\<close>

lemma gdd_branch_None:
  "getDataDefault data ''branch'' (branch_decoder caps) None = Inr x \<Longrightarrow> x = None"
  by (auto simp: getDataDefault_def branch_decoder_def bind_def split: option.splits sum.splits)

lemma sendTransaction_build_fails:
  "\<exists>e. sendTransaction_build caps data = Inl e \<and> (is_InvalidParams e \<or> escaped data e)"
  unfolding sendTransaction_build_def
  apply (rule bind_failsI [where P = "\<lambda>e. is_InvalidParams e \<or> escaped data e"], erule gdd_address, simp)
  apply (rule bind_failsI [where P = "\<lambda>e. is_InvalidParams e \<or> escaped data e"], erule gdd_quantity)
  apply (rule bind_failsI [where P = "\<lambda>e. is_InvalidParams e \<or> escaped data e"], erule gdd_quantity)
  apply (rule bind_failsI [where P = "\<lambda>e. is_InvalidParams e \<or> escaped data e"], erule gdd_quantity)
  apply (rule bind_failsI [where P = "\<lambda>e. is_InvalidParams e \<or> escaped data e"], erule gdd_data)
  apply (rule bind_failsI [where P = "\<lambda>e. is_InvalidParams e \<or> escaped data e"], erule gdd_quantity)
  apply (rule bind_failsI [where P = "\<lambda>e. is_InvalidParams e \<or> escaped data e"], erule gdd_quantity)
  apply (rule bind_failsI [where P = "\<lambda>e. is_InvalidParams e \<or> escaped data e"], erule gdd_quantity)
  apply (rule bind_failsI [where P = "\<lambda>e. is_InvalidParams e \<or> escaped data e"], erule gdd_nullable_quantity)
  apply (rule bind_failsI [where P = "\<lambda>e. is_InvalidParams e \<or> escaped data e"], erule gdd_branch)
  apply (rule bind_failsI [where P = "\<lambda>e. is_InvalidParams e \<or> escaped data e"], erule gdd_quantity)
  apply (rule bind_failsI [where P = "\<lambda>e. is_InvalidParams e \<or> escaped data e"], erule gdd_address, simp)
  apply (drule gdd_branch_None)
  apply (simp split: option.splits)
  done

text \<open>The outcome does not depend on the transaction constructor or on \<open>master.addTx\<close>:
  neither is reached.\<close>

lemma bind_cong_Inr: "(\<And>x. m = Inr x \<Longrightarrow> f x = g x) \<Longrightarrow> bind m f = bind m g"
  by (cases m) (auto simp: bind_def)

lemma decoders_ignore_tx_capabilities:
  "address_decoder (caps\<lparr>create_tx := ct, master_addTx := m\<rparr>) = address_decoder caps"
  "branch_decoder (caps\<lparr>create_tx := ct, master_addTx := m\<rparr>) = branch_decoder caps"
  by (auto simp: address_decoder_def branch_decoder_def fun_eq_iff)

lemma sendTransaction_build_ignores_tx_capabilities:
  "sendTransaction_build (caps\<lparr>create_tx := ct, master_addTx := m\<rparr>) data
   = sendTransaction_build caps data"
  unfolding sendTransaction_build_def decoders_ignore_tx_capabilities
  apply (rule bind_cong_Inr)+
  apply (drule gdd_branch_None)
  apply (simp split: option.splits)
  done

text \<open>
  For every dict, \<open>sendTransaction\<close> raises before the transaction is
  constructed and makes no call to \<open>master.addTx\<close>: \<open>branch_decoder\<close> returns \<open>None\<close>,
  so the "Missing branch" check fires unless an earlier step has raised. The exception
  is \<open>InvalidParams\<close>, or else an \<open>AttributeError\<close>, \<open>AssertionError\<close> or \<open>ValueError\<close>
  that \<open>data_decoder\<close> raised on the value of \<open>to\<close>, \<open>data\<close>, \<open>branch\<close> or \<open>withdrawTo\<close>.
  The outcome is the same whatever the constructor and \<open>master.addTx\<close> would do.
\<close>

theorem sendTransaction_never_submits:
  "\<exists>e. sendTransaction caps (JObj data) = (Inl e, [])
        \<and> (is_InvalidParams e \<or> escaped data e)
        \<and> (\<forall>ct m. sendTransaction (caps\<lparr>create_tx := ct, master_addTx := m\<rparr>) (JObj data) = (Inl e, []))"
proof -
  obtain e where e: "sendTransaction_build caps data = Inl e" "is_InvalidParams e \<or> escaped data e"
    using sendTransaction_build_fails [of caps data] by blast
  have "sendTransaction caps (JObj data) = (Inl e, [])"
    using e(1) by (simp add: sendTransaction_def)
  moreover have "sendTransaction (caps\<lparr>create_tx := ct, master_addTx := m\<rparr>) (JObj data) = (Inl e, [])"
    for ct m
    using e(1) by (simp add: sendTransaction_def sendTransaction_build_ignores_tx_capabilities)
  ultimately show ?thesis using e(2) by blast
qed

theorem sendTransaction_never_submits_witness:
  "\<exists>e. sendTransaction sample_caps (JObj [(''nonce'', JStr ''0x1''), (''branch'', JStr ''0x00000001'')])
          = (Inl e, [])"
  using sendTransaction_never_submits [of sample_caps "[(''nonce'', JStr ''0x1''), (''branch'', JStr ''0x00000001'')]"]
  by blast

text \<open>A value that is not a str is refused with \<open>InvalidParams\<close> under a quantity
  field, where \<open>quantity_decoder\<close> tests the type first.\<close>

lemma sendTransaction_non_string_quantity:
  "sendTransaction sample_caps (JObj [(''value'', JInt 5)])
   = (Inl (InvalidParams ''Invalid quantity encoding''), [])"
  by code_simp

text \<open>
  C2. The claim has \<open>sendTransaction\<close> raise \<open>InvalidParams\<close> on every dict and never
  reach the construction and submission of the transaction. On the dict
  \<open>{"data": 5}\<close> the handler raises, and submits nothing, but what it raises is not
  \<open>InvalidParams\<close>: \<open>data_decoder\<close> has no test of the type, calls \<open>startswith\<close> on the
  int, and the \<open>AttributeError\<close> leaves the handler.
\<close>

theorem sendTransaction_escaping_exception:
  "sendTransaction sample_caps (JObj [(''data'', JInt 5)]) = (Inl AttributeError, [])"
  by code_simp

text \<open>
  C1. The spec has \<open>sendTransaction\<close> on a fully valid payload construct the
  transaction, submit it and return the hex hash. On a payload with a 24-byte \<open>to\<close>,
  a nonce, non-zero \<open>v\<close>, \<open>r\<close>, \<open>s\<close> and a 4-byte \<open>branch\<close>, and a master service
  that accepts every submission, the handler raises \<open>InvalidParams("Missing branch")\<close>
  and submits nothing.
\<close>

theorem sendTransaction_valid_payload_rejected:
  "sendTransaction sample_caps
     (JObj [(''to'', JStr ''0x000000000000000000000000000000000000000100000001''),
            (''nonce'', JStr ''0x1''), (''v'', JStr ''0x1b''), (''r'', JStr ''0x1''),
            (''s'', JStr ''0x1''), (''branch'', JStr ''0x00000001'')])
   = (Inl (InvalidParams ''Missing branch''), [])"
  by code_simp

text \<open>
  C5. The four validation messages of the spec, on four dicts whose fields all decode.
  Without a nonce: "Missing nonce", as the spec says. With a nonce and no \<open>v\<close>, \<open>r\<close>,
  \<open>s\<close>: the message is spelt "Mising v, r, s", not "Missing v, r, s". With nonce and
  signature and no branch: "Missing branch", as the spec says. With nonce, signature, a
  branch, \<open>withdraw > 0\<close> and no \<open>withdrawTo\<close>: "Missing branch" again, not
  "Missing withdrawTo", since the decoded branch is \<open>None\<close>.
\<close>

theorem sendTransaction_messages:
  "sendTransaction sample_caps (JObj [])
     = (Inl (InvalidParams ''Missing nonce''), [])
   \<and> sendTransaction sample_caps (JObj [(''nonce'', JStr ''0x1'')])
     = (Inl (InvalidParams ''Mising v, r, s''), [])
   \<and> sendTransaction sample_caps
       (JObj [(''nonce'', JStr ''0x1''), (''v'', JStr ''0x1b''), (''r'', JStr ''0x1''),
              (''s'', JStr ''0x1'')])
     = (Inl (InvalidParams ''Missing branch''), [])
   \<and> sendTransaction sample_caps
       (JObj [(''nonce'', JStr ''0x1''), (''v'', JStr ''0x1b''), (''r'', JStr ''0x1''),
              (''s'', JStr ''0x1''), (''branch'', JStr ''0x00000001''), (''withdraw'', JStr ''0x5'')])
     = (Inl (InvalidParams ''Missing branch''), [])"
  by code_simp

text \<open>Whenever \<open>getTransactionCount\<close> returns, the \<open>branch\<close> entry of its result is
  \<open>None\<close>.\<close>

lemma getTransactionCount_branch_entry:
  "getTransactionCount caps address blockId = Inr result \<Longrightarrow> map_of result ''branch'' = Some JNull"
  by (auto simp: getTransactionCount_def bind_def branch_encoder_def json_of_optional_def Let_def
      split: sum.splits prod.splits)

text \<open>
  C10. The spec has the \<open>branch\<close> entry of the result of \<open>getTransactionCount\<close> be the
  hex string of the serialized branch. With a master service that answers branch
  \<open>00000001\<close> and count 5, the entry is \<open>None\<close>; the \<open>count\<close> entry is \<open>"0x5"\<close>.
\<close>

theorem getTransactionCount_branch_null:
  "getTransactionCount sample_caps (JStr ''0x000000000000000000000000000000000000000100000001'') None
   = Inr [(''branch'', JNull), (''count'', JStr ''0x5'')]"
  by code_simp

end
